theory Spec2Isabelle
  imports
    Complex_Main
    "HOL-Library.Sublist"
    "HOL-Library.Char_ord"
    "HOL-Library.List_Lexorder"
    "HOL-Library.Product_Lexorder"
begin

section \<open>The dashboard script \<open>app_opcion2.py\<close>\<close>

text \<open>
  The script loads a table, reshapes it into a long table, aggregates it, builds two
  hierarchical axes of synthetic keys and answers clicks on the chart.

  Conventions of the embedding.
  \<^item> A Python \<open>str\<close> is a \<open>string\<close>: the bytes of its UTF-8 encoding. A character
    outside ASCII is written as its bytes. The character classes the script uses
    (\<open>str.strip\<close>, \<open>str.lower\<close>, the regular expression's \<open>\s\<close> and \<open>\d\<close>) are
    modelled on their ASCII members.
  \<^item> A Python \<open>float\<close> is a \<open>real\<close>; the missing value (\<open>NaN\<close>, \<open>None\<close>) is a value
    of its own.
  \<^item> An exception is a value of \<open>py_error\<close>, returned on the left of a sum.
\<close>

subsection \<open>Errors\<close>

datatype py_error = KeyError | ValueError | IndexError

definition bind_err :: "py_error + 'a \<Rightarrow> ('a \<Rightarrow> py_error + 'b) \<Rightarrow> py_error + 'b" where
  "bind_err m f = (case m of Inl e \<Rightarrow> Inl e | Inr v \<Rightarrow> f v)"

subsection \<open>String operations of Python\<close>

text \<open>\<open>sep in s\<close>: the substring test.\<close>

fun contains :: "string \<Rightarrow> string \<Rightarrow> bool" where
  "contains sep [] = (sep = [])"
| "contains sep (c # cs) = (prefix sep (c # cs) \<or> contains sep cs)"

text \<open>
  The first (leftmost) occurrence of \<open>sep\<close> in a string, as \<open>str.split(sep, 1)\<close>
  finds it: the text before it and the text after it.
\<close>

fun split_once :: "string \<Rightarrow> string \<Rightarrow> (string \<times> string) option" where
  "split_once sep [] = (if sep = [] then Some ([], []) else None)"
| "split_once sep (c # cs) =
     (if prefix sep (c # cs) then Some ([], drop (length sep) (c # cs))
      else (case split_once sep cs of
              None \<Rightarrow> None
            | Some (a, b) \<Rightarrow> Some (c # a, b)))"

text \<open>\<open>s.split(sep, 1)\<close>: at most one split; an empty separator raises.\<close>

definition str_split1 :: "string \<Rightarrow> string \<Rightarrow> py_error + string list" where
  "str_split1 s sep =
     (if sep = [] then Inl ValueError
      else (case split_once sep s of
              None \<Rightarrow> Inr [s]
            | Some (a, b) \<Rightarrow> Inr [a, b]))"

text \<open>\<open>a, b = xs\<close>: unpacking a list into two names raises unless it has two elements.\<close>

fun unpack2 :: "string list \<Rightarrow> py_error + (string \<times> string)" where
  "unpack2 [a, b] = Inr (a, b)"
| "unpack2 _ = Inl ValueError"

subsection \<open>Key prefixes and the separator\<close>

definition HDR_PREFIX_Y :: string where "HDR_PREFIX_Y = ''__HDR__''"
definition ROW_PREFIX_Y :: string where "ROW_PREFIX_Y = ''__ROW__''"
definition HDR_PREFIX_X :: string where "HDR_PREFIX_X = ''__XHDR__''"
definition COL_PREFIX_X :: string where "COL_PREFIX_X = ''__XCOL__''"

text \<open>The literal \<open>" || "\<close> that joins the two fields of a data key.\<close>

definition SEP :: string where "SEP = '' || ''"

subsection \<open>Strength and direction labels\<close>

text \<open>\<open>map_strength_label\<close>; \<open>None\<close> is the missing mean (\<open>pd.isna\<close>).\<close>

definition map_strength_label :: "real option \<Rightarrow> string" where
  "map_strength_label x =
     (case x of
        None \<Rightarrow> ''N/A''
      | Some v \<Rightarrow>
          if v \<ge> 2.6 then ''high''
          else if v \<ge> 2.4 then ''moderate''
          else if v \<ge> 1.5 then ''low-moderate''
          else if v \<ge> 1.0 then ''low''
          else ''very low'')"

text \<open>
  \<open>map_direction_label\<close>. The chain of \<open>elif\<close> has no \<open>else\<close>: where no branch
  applies the function ends without \<open>return\<close>, and its value is Python's \<open>None\<close>,
  here the result \<open>None\<close>.
\<close>

definition map_direction_label :: "real option \<Rightarrow> string option" where
  "map_direction_label x =
     (case x of
        None \<Rightarrow> Some ''N/A''
      | Some v \<Rightarrow>
          if v = 1.0 then Some ''positive''
          else if 0.5 < v \<and> v < 1 then Some ''mostly positive''
          else if -0.5 < v \<and> v \<le> 0.5 then Some ''inconclusive/mixed''
          else if -1 < v \<and> v \<le> -0.5 then Some ''mostly negative''
          else if v = -1.0 then Some ''negative''
          else None)"

subsection \<open>Tables\<close>

text \<open>
  A cell of a table is missing, a string or a number. A row maps the names of its
  columns to cells; a table (\<open>DataFrame\<close>) is the list of its column names and the
  list of its rows.
\<close>

datatype cell = NaN | Str string | Num real

type_synonym row = "string \<Rightarrow> cell option"

record frame =
  columns :: "string list"
  rows :: "row list"

text \<open>The cell of a row under a column; a column the row has no value for reads as missing.\<close>

definition cell_at :: "row \<Rightarrow> string \<Rightarrow> cell" where
  "cell_at r c = (case r c of None \<Rightarrow> NaN | Some v \<Rightarrow> v)"

text \<open>\<open>Series.unique()\<close>: the distinct values in the order they are first seen.\<close>

fun unique :: "'a list \<Rightarrow> 'a list" where
  "unique [] = []"
| "unique (x # xs) = x # unique (removeAll x xs)"

text \<open>\<open>df[cs]\<close>: the columns \<open>cs\<close> of a table; a name that is no column raises.\<close>

definition select_cols :: "frame \<Rightarrow> string list \<Rightarrow> py_error + frame" where
  "select_cols df cs =
     (if list_all (\<lambda>c. c \<in> set (columns df)) cs
      then Inr \<lparr>columns = cs, rows = map (\<lambda>r. r |` set cs) (rows df)\<rparr>
      else Inl KeyError)"

text \<open>\<open>dropna(subset=cs, how="any")\<close>: the rows with no missing cell under \<open>cs\<close>.\<close>

definition dropna :: "string list \<Rightarrow> frame \<Rightarrow> py_error + frame" where
  "dropna cs f =
     (if list_all (\<lambda>c. c \<in> set (columns f)) cs
      then Inr (f\<lparr>rows := filter (\<lambda>r. list_all (\<lambda>c. cell_at r c \<noteq> NaN) cs) (rows f)\<rparr>)
      else Inl KeyError)"

text \<open>\<open>assign(name=f)\<close>: a column computed from each row, added last or replaced.\<close>

definition assign :: "string \<Rightarrow> (row \<Rightarrow> cell) \<Rightarrow> frame \<Rightarrow> frame" where
  "assign name f fr =
     \<lparr>columns = (if name \<in> set (columns fr) then columns fr else columns fr @ [name]),
      rows = map (\<lambda>r. r(name \<mapsto> f r)) (rows fr)\<rparr>"

text \<open>
  \<open>pd.concat(fs, ignore_index=True)\<close>: the columns are the union of the tables'
  columns in the order they first appear, the rows follow one another, and a row has a
  missing cell under a column its table lacks.
\<close>

definition reindex :: "string list \<Rightarrow> row \<Rightarrow> row" where
  "reindex cs r = (\<lambda>c. if c \<in> set cs then Some (cell_at r c) else None)"

definition concat_frames :: "frame list \<Rightarrow> frame" where
  "concat_frames fs =
     (let cs = unique (concat (map columns fs))
      in \<lparr>columns = cs, rows = concat (map (\<lambda>f. map (reindex cs) (rows f)) fs)\<rparr>)"

subsection \<open>Column aliases\<close>

definition NL :: string where "NL = [CHR 0x0A]"

text \<open>The zero width space U+200B that three of the column names carry.\<close>

definition ZWSP :: string where "ZWSP = [CHR 0xE2, CHR 0x80, CHR 0x8B]"

definition COL_L1 :: string where "COL_L1 = ''INTERVENTION_Level 1_One Health Capability''"
definition COL_L2 :: string where "COL_L2 = ''INTERVENTION_Level 2''"
definition COL_INT_OUT :: string where
  "COL_INT_OUT = ''INTERMEDIATE OUTCOME_Classification (dropdown)'' @ NL"
definition COL_FIN_OUT :: string where
  "COL_FIN_OUT = ''OUTCOME_Classification (dropdown)'' @ NL @ NL"
definition COL_INT_STRENGTH :: string where "COL_INT_STRENGTH = ''_strength''"
definition COL_FIN_STRENGTH :: string where "COL_FIN_STRENGTH = ''_strength_final''"
definition COL_INT_SIGN :: string where "COL_INT_SIGN = ''_sign''"
definition COL_FIN_SIGN :: string where "COL_FIN_SIGN = ''_sign_final''"
definition COL_IMP_OUT :: string where
  "COL_IMP_OUT = ''IMPACT_Classification (dropdown)'' @ NL @ ''AMR burden reduced = Impact''"
definition COL_IMP_STRENGTH :: string where "COL_IMP_STRENGTH = ''_strength_impact''"
definition COL_IMP_SIGN :: string where "COL_IMP_SIGN = ''_sign_impact''"
definition COL_IMP_TEXT :: string where "COL_IMP_TEXT = ''IMPACT TEXT (verbatim)''"
definition COL_TITLE :: string where
  "COL_TITLE = ''Title'' @ ZWSP @ '' '' @ NL @ ''(213 articles)''"
definition COL_YEAR :: string where "COL_YEAR = ''Publication Year'' @ ZWSP"
definition COL_GEOG :: string where "COL_GEOG = ''Geography'' @ ZWSP @ ''_Location''"
definition COL_INT_TEXT :: string where "COL_INT_TEXT = ''INTERMEDIATE OUTCOME TEXT (verbatim)''"
definition COL_INTERV_TEXT :: string where
  "COL_INTERV_TEXT = ''INTERVENTION TEXT (verbatim)'' @ NL"
definition COL_OUT_TEXT :: string where "COL_OUT_TEXT = ''OUTCOME TEXT (verbatim)''"

subsection \<open>The long table\<close>

text \<open>
  The table \<open>df\<close> of the functions below is the loaded table after the loop that
  strips the classification columns.
\<close>

definition keep_base :: "string list" where
  "keep_base = [COL_L1, COL_L2, COL_TITLE, COL_YEAR, COL_GEOG,
                COL_INT_TEXT, COL_INTERV_TEXT, COL_OUT_TEXT, COL_IMP_TEXT]"

definition cols_keep :: "frame \<Rightarrow> string list" where
  "cols_keep df = filter (\<lambda>c. c \<in> set (columns df)) keep_base"

text \<open>
  One tier of the long table, as the script builds each of its three: the kept columns
  and the tier's three columns, without the rows that miss a level or the outcome, and
  with the four columns \<open>outcome_type\<close>, \<open>outcome_name\<close>, \<open>strength\<close>, \<open>sign\<close>.
\<close>

definition tier_long :: "frame \<Rightarrow> string \<Rightarrow> string \<Rightarrow> string \<Rightarrow> string \<Rightarrow> py_error + frame" where
  "tier_long df tier out_col strength_col sign_col =
     bind_err (select_cols df (cols_keep df @ [out_col, strength_col, sign_col])) (\<lambda>sel.
     bind_err (dropna [COL_L1, COL_L2, out_col] sel) (\<lambda>kept.
       Inr (assign ''sign'' (\<lambda>r. cell_at r sign_col)
             (assign ''strength'' (\<lambda>r. cell_at r strength_col)
               (assign ''outcome_name'' (\<lambda>r. cell_at r out_col)
                 (assign ''outcome_type'' (\<lambda>r. Str tier) kept))))))"

definition int_long :: "frame \<Rightarrow> py_error + frame" where
  "int_long df = tier_long df ''Intermediate Outcomes'' COL_INT_OUT COL_INT_STRENGTH COL_INT_SIGN"

definition fin_long :: "frame \<Rightarrow> py_error + frame" where
  "fin_long df = tier_long df ''Final Outcomes'' COL_FIN_OUT COL_FIN_STRENGTH COL_FIN_SIGN"

text \<open>
  The impact tier; \<open>il\<close> is the intermediate tier built before it. Without the three
  impact columns the tier is the empty table on the columns of \<open>il\<close>.
\<close>

definition imp_long :: "frame \<Rightarrow> frame \<Rightarrow> py_error + frame" where
  "imp_long df il =
     (if list_all (\<lambda>c. c \<in> set (columns df)) [COL_IMP_OUT, COL_IMP_STRENGTH, COL_IMP_SIGN]
      then tier_long df ''Impact'' COL_IMP_OUT COL_IMP_STRENGTH COL_IMP_SIGN
      else Inr \<lparr>columns = columns il, rows = []\<rparr>)"

definition long :: "frame \<Rightarrow> py_error + frame" where
  "long df =
     bind_err (int_long df) (\<lambda>il.
     bind_err (fin_long df) (\<lambda>fl.
     bind_err (imp_long df il) (\<lambda>im.
       Inr (concat_frames [il, fl, im]))))"

subsection \<open>Aggregation\<close>

text \<open>
  The key of a long row: its cells under the two levels, \<open>outcome_type\<close> and
  \<open>outcome_name\<close>.
\<close>

type_synonym gkey = "cell \<times> cell \<times> cell \<times> cell"

definition group_key :: "row \<Rightarrow> gkey" where
  "group_key r =
     (cell_at r COL_L1, cell_at r COL_L2, cell_at r ''outcome_type'', cell_at r ''outcome_name'')"

text \<open>
  \<open>groupby\<close> collects the rows of each key: a row joins the group of its key, or opens
  a new group after the groups so far.
\<close>

fun tally :: "'k \<Rightarrow> 'r \<Rightarrow> ('k \<times> 'r list) list \<Rightarrow> ('k \<times> 'r list) list" where
  "tally k r [] = [(k, [r])]"
| "tally k r ((k', rs) # gs) =
     (if k' = k then (k', rs @ [r]) # gs else (k', rs) # tally k r gs)"

definition groups :: "row list \<Rightarrow> (gkey \<times> row list) list" where
  "groups rs = fold (\<lambda>r gs. tally (group_key r) r gs) rs []"

text \<open>
  The groups come out sorted by key (\<open>sort=True\<close> is the default of \<open>groupby\<close>):
  numbers before strings before the missing value, numbers by value and strings in
  lexicographic order.
\<close>

fun cell_rank :: "cell \<Rightarrow> nat \<times> real \<times> string" where
  "cell_rank (Num x) = (0, x, [])"
| "cell_rank (Str s) = (1, 0, s)"
| "cell_rank NaN = (2, 0, [])"

definition key_rank ::
  "gkey \<Rightarrow> (nat \<times> real \<times> string) \<times> (nat \<times> real \<times> string) \<times> (nat \<times> real \<times> string) \<times> (nat \<times> real \<times> string)" where
  "key_rank k = (case k of (a, b, c, d) \<Rightarrow> (cell_rank a, cell_rank b, cell_rank c, cell_rank d))"

text \<open>
  The mean of a column of scores skips the missing cells, and is missing when no cell
  is left. The score columns are columns of floats.
\<close>

definition nums :: "cell list \<Rightarrow> real list" where
  "nums cs = concat (map (\<lambda>c. case c of Num x \<Rightarrow> [x] | _ \<Rightarrow> []) cs)"

definition mean_skipna :: "cell list \<Rightarrow> real option" where
  "mean_skipna cs =
     (let xs = nums cs in if xs = [] then None else Some (sum_list xs / real (length xs)))"

text \<open>A row of the aggregate table: the four key columns, \<open>n\<close> and the two means.\<close>

record agg_row =
  agg_l1 :: cell
  agg_l2 :: cell
  agg_outcome_type :: cell
  agg_outcome_name :: cell
  agg_n :: nat
  agg_mean_strength :: "real option"
  agg_mean_direction :: "real option"

definition key_of :: "agg_row \<Rightarrow> gkey" where
  "key_of a = (agg_l1 a, agg_l2 a, agg_outcome_type a, agg_outcome_name a)"

definition agg_of_group :: "gkey \<times> row list \<Rightarrow> agg_row" where
  "agg_of_group g =
     (case g of ((a, b, c, d), rs) \<Rightarrow>
        \<lparr>agg_l1 = a, agg_l2 = b, agg_outcome_type = c, agg_outcome_name = d,
         agg_n = length rs,
         agg_mean_strength = mean_skipna (map (\<lambda>r. cell_at r ''strength'') rs),
         agg_mean_direction = mean_skipna (map (\<lambda>r. cell_at r ''sign'') rs)\<rparr>)"

text \<open>\<open>agg\<close>, from the long table; a missing key or score column raises.\<close>

definition agg :: "frame \<Rightarrow> py_error + agg_row list" where
  "agg lt =
     (if list_all (\<lambda>c. c \<in> set (columns lt))
           [COL_L1, COL_L2, ''outcome_type'', ''outcome_name'', ''strength'', ''sign'']
      then Inr (map agg_of_group (sort_key (\<lambda>g. key_rank (fst g)) (groups (rows lt))))
      else Inl KeyError)"

definition strength_label :: "agg_row \<Rightarrow> string" where
  "strength_label a = map_strength_label (agg_mean_strength a)"

definition direction_label :: "agg_row \<Rightarrow> string option" where
  "direction_label a = map_direction_label (agg_mean_direction a)"

text \<open>The three tier names, in the order of the X axis.\<close>

definition tiers :: "string list" where
  "tiers = [''Intermediate Outcomes'', ''Final Outcomes'', ''Impact'']"

subsection \<open>Axis keys\<close>

text \<open>
  \<open>astype(str)\<close> and \<open>str\<close> on a cell: a string is its own text, the missing float
  prints as \<open>nan\<close>. The text of a number is what Python prints for the float; the
  embedding takes that printing as the parameter \<open>fmt\<close>.
\<close>

definition astype_str :: "(real \<Rightarrow> string) \<Rightarrow> cell \<Rightarrow> string" where
  "astype_str fmt c = (case c of Str s \<Rightarrow> s | Num x \<Rightarrow> fmt x | NaN \<Rightarrow> ''nan'')"

text \<open>\<open>y_key\<close> of an aggregate row.\<close>

definition y_key :: "(real \<Rightarrow> string) \<Rightarrow> agg_row \<Rightarrow> string" where
  "y_key fmt a = ROW_PREFIX_Y @ astype_str fmt (agg_l1 a) @ SEP @ astype_str fmt (agg_l2 a)"

text \<open>
  \<open>x_key\<close> of an aggregate row. The column \<open>outcome_type\<close> holds the tier names the
  long table assigns, which are strings and enter the key as they are.
\<close>

definition x_key :: "(real \<Rightarrow> string) \<Rightarrow> agg_row \<Rightarrow> string" where
  "x_key fmt a =
     COL_PREFIX_X @ astype_str fmt (agg_outcome_type a) @ SEP @ astype_str fmt (agg_outcome_name a)"

subsection \<open>The Y axis\<close>

text \<open>\<open>str.lower\<close>: each capital letter becomes its small letter.\<close>

definition lower_char :: "char \<Rightarrow> char" where
  "lower_char c =
     (case map_of (zip ''ABCDEFGHIJKLMNOPQRSTUVWXYZ'' ''abcdefghijklmnopqrstuvwxyz'') c of
        None \<Rightarrow> c
      | Some d \<Rightarrow> d)"

definition lower :: "string \<Rightarrow> string" where
  "lower s = map lower_char s"

definition is_surveillance :: "(real \<Rightarrow> string) \<Rightarrow> cell \<Rightarrow> bool" where
  "is_surveillance fmt l = prefix ''surveillance'' (lower (astype_str fmt l))"

text \<open>
  \<open>unique_l1\<close> as first assigned: the level-1 values of the aggregate table that are
  not missing, in the order they are first seen.
\<close>

definition l1_first_seen :: "agg_row list \<Rightarrow> cell list" where
  "l1_first_seen ag = unique (filter (\<lambda>c. c \<noteq> NaN) (map agg_l1 ag))"

text \<open>\<open>unique_l1\<close> as reassigned: the surveillance values, then the others.\<close>

definition unique_l1 :: "(real \<Rightarrow> string) \<Rightarrow> agg_row list \<Rightarrow> cell list" where
  "unique_l1 fmt ag =
     filter (\<lambda>l. is_surveillance fmt l) (l1_first_seen ag)
       @ filter (\<lambda>l. \<not> is_surveillance fmt l) (l1_first_seen ag)"

definition is_space :: "char \<Rightarrow> bool" where
  "is_space c = (c \<in> set [CHR 0x09, CHR 0x0A, CHR 0x0B, CHR 0x0C, CHR 0x0D,
                          CHR 0x1C, CHR 0x1D, CHR 0x1E, CHR 0x1F, CHR 0x20])"

definition is_digit :: "char \<Rightarrow> bool" where
  "is_digit c = (CHR ''0'' \<le> c \<and> c \<le> CHR ''9'')"

text \<open>\<open>int\<close> of a string of decimal digits.\<close>

definition digits_val :: "string \<Rightarrow> nat" where
  "digits_val ds = fold (\<lambda>c v. 10 * v + (of_char c - 48)) ds 0"

text \<open>
  \<open>re.match\<close> of the pattern \<open>\s*(\d+)[\.\)]\<close> at the start of a text: white space, then
  one digit or more, then a dot or a closing parenthesis. The result is the group of
  digits, or \<open>None\<close> when the pattern does not match. The three character classes are
  disjoint, so the greedy match is the only one.
\<close>

definition match_num_prefix :: "string \<Rightarrow> string option" where
  "match_num_prefix s =
     (let t = dropWhile is_space s;
          ds = takeWhile is_digit t;
          rest = dropWhile is_digit t
      in if ds \<noteq> [] \<and> (case rest of [] \<Rightarrow> False | c # cs \<Rightarrow> c = CHR ''.'' \<or> c = CHR '')'')
         then Some ds else None)"

text \<open>\<open>l2_num_prefix\<close> on the text of a label.\<close>

definition l2_num_prefix :: "string \<Rightarrow> int" where
  "l2_num_prefix s =
     (case match_num_prefix s of
        Some ds \<Rightarrow> int (digits_val ds)
      | None \<Rightarrow> 9999)"

text \<open>
  The body of the loop over \<open>unique_l1\<close>: the rows of one level-1 value, sorted by the
  numeric prefix of their level-2 label, and the keys the loop appends for them.
\<close>

definition y_group :: "(real \<Rightarrow> string) \<Rightarrow> agg_row list \<Rightarrow> cell \<Rightarrow> agg_row list" where
  "y_group fmt ag l1 =
     sort_key (\<lambda>a. l2_num_prefix (astype_str fmt (agg_l2 a))) (filter (\<lambda>a. agg_l1 a = l1) ag)"

definition hdr_key :: "(real \<Rightarrow> string) \<Rightarrow> cell \<Rightarrow> string" where
  "hdr_key fmt l1 = HDR_PREFIX_Y @ astype_str fmt l1"

definition order_y :: "(real \<Rightarrow> string) \<Rightarrow> agg_row list \<Rightarrow> string list" where
  "order_y fmt ag =
     concat (map (\<lambda>l1. hdr_key fmt l1 # map (y_key fmt) (y_group fmt ag l1)) (unique_l1 fmt ag))"

definition y_header_keys :: "(real \<Rightarrow> string) \<Rightarrow> agg_row list \<Rightarrow> string list" where
  "y_header_keys fmt ag = map (hdr_key fmt) (unique_l1 fmt ag)"

subsection \<open>Sizing\<close>







subsection \<open>The detail callback\<close>

text \<open>\<open>str\<close> of a natural number, for \<open>len(sub)\<close> in the title.\<close>

definition digit_char :: "nat \<Rightarrow> char" where
  "digit_char d = ''0123456789'' ! d"

fun str_nat :: "nat \<Rightarrow> string" where
  "str_nat k = (if k < 10 then [digit_char k] else str_nat (k div 10) @ [digit_char (k mod 10)])"

declare str_nat.simps [simp del]

text \<open>
  The two parsing steps of \<open>show_details\<close> on one key: split once on the prefix and keep
  what follows it, then split that once on the separator.
\<close>

definition parse_key :: "string \<Rightarrow> string \<Rightarrow> py_error + (string \<times> string)" where
  "parse_key pre key =
     bind_err (bind_err (str_split1 key pre) unpack2) (\<lambda>p.
       bind_err (str_split1 (snd p) SEP) unpack2)"

definition cols_show :: "string list" where
  "cols_show = [COL_TITLE, COL_YEAR, COL_GEOG, COL_INTERV_TEXT,
                COL_INT_TEXT, COL_OUT_TEXT, COL_IMP_TEXT,
                COL_INT_STRENGTH, COL_FIN_STRENGTH, COL_IMP_STRENGTH,
                COL_INT_SIGN, COL_FIN_SIGN, COL_IMP_SIGN]"

text \<open>
  One record of \<open>sub[cols_show].to_dict("records")\<close>: the cells of a row under the
  shown columns, a column the long table lacks being filled with the missing value.
\<close>

definition detail_record :: "frame \<Rightarrow> row \<Rightarrow> row" where
  "detail_record lt r =
     (\<lambda>c. if c \<in> set cols_show
          then Some (if c \<in> set (columns lt) then cell_at r c else NaN)
          else None)"

text \<open>The em dash U+2014, the arrow U+2192 and the multiplication sign U+00D7.\<close>

definition EM_DASH :: string where "EM_DASH = [CHR 0xE2, CHR 0x80, CHR 0x94]"
definition ARROW :: string where "ARROW = [CHR 0xE2, CHR 0x86, CHR 0x92]"
definition TIMES :: string where "TIMES = [CHR 0xC3, CHR 0x97]"

definition detail_title :: "string \<Rightarrow> string \<Rightarrow> string \<Rightarrow> string \<Rightarrow> nat \<Rightarrow> string" where
  "detail_title outcome_type outcome_name l1 l2 k =
     outcome_type @ '' '' @ EM_DASH @ '' '' @ [CHR 0x22] @ outcome_name @ [CHR 0x22] @ ''  |  ''
       @ l1 @ '' '' @ ARROW @ '' '' @ l2 @ ''  |  '' @ str_nat k @ '' articles''"

text \<open>The rows of the long table that the mask of \<open>show_details\<close> selects.\<close>

definition matches :: "string \<Rightarrow> string \<Rightarrow> string \<Rightarrow> string \<Rightarrow> row \<Rightarrow> bool" where
  "matches l1 l2 outcome_type outcome_name r =
     (cell_at r COL_L1 = Str l1 \<and> cell_at r COL_L2 = Str l2
      \<and> cell_at r ''outcome_type'' = Str outcome_type
      \<and> cell_at r ''outcome_name'' = Str outcome_name)"

text \<open>
  The click state: \<open>None\<close> when there is none, else the list under \<open>"points"\<close>, each
  point with its \<open>"x"\<close> and \<open>"y"\<close>. The chart's axes are categorical, so both are strings.
\<close>

record point =
  point_x :: string
  point_y :: string

text \<open>\<open>show_details\<close>, reading the long table \<open>lt\<close>.\<close>

definition show_details :: "frame \<Rightarrow> point list option \<Rightarrow> py_error + (row list \<times> string)" where
  "show_details lt clickData =
     (case clickData of
        None \<Rightarrow> Inr ([], ''Click a bubble to see the article list.'')
      | Some [] \<Rightarrow> Inl IndexError
      | Some (p # ps) \<Rightarrow>
          if \<not> (prefix COL_PREFIX_X (point_x p) \<and> prefix ROW_PREFIX_Y (point_y p))
          then Inr ([], ''Select a bubble (row Level 2 '' @ TIMES @ '' outcome) to see details.'')
          else
            bind_err (parse_key COL_PREFIX_X (point_x p)) (\<lambda>xp.
            bind_err (parse_key ROW_PREFIX_Y (point_y p)) (\<lambda>yp.
              if \<not> list_all (\<lambda>c. c \<in> set (columns lt))
                     [COL_L1, COL_L2, ''outcome_type'', ''outcome_name'']
              then Inl KeyError
              else
                (let sub = filter (matches (fst yp) (snd yp) (fst xp) (snd xp)) (rows lt)
                 in Inr (map (detail_record lt) sub,
                         detail_title (fst xp) (snd xp) (fst yp) (snd yp) (length sub))))))"

subsection \<open>The invariant of grouping\<close>

text \<open>
  The invariant of the grouping loop over the rows \<open>xs\<close> read so far: one group per key
  seen, holding the rows of that key in their order.
\<close>

definition grouped :: "('r \<Rightarrow> 'k) \<Rightarrow> ('k \<times> 'r list) list \<Rightarrow> 'r list \<Rightarrow> bool" where
  "grouped f gs xs \<longleftrightarrow>
     distinct (map fst gs) \<and>
     (\<forall>k. map_of gs k =
        (if k \<in> f ` set xs then Some (filter (\<lambda>r. f r = k) xs) else None))"

subsection \<open>A small long table\<close>

text \<open>
  Four long rows: three for one tuple, with strengths 3, 3, 2.4 and signs 1, 1, 0.5, and
  one for another tuple.
\<close>

definition example_row :: "string \<Rightarrow> string \<Rightarrow> string \<Rightarrow> string \<Rightarrow> real \<Rightarrow> real \<Rightarrow> row" where
  "example_row a b t nm s g =
     [COL_L1 \<mapsto> Str a, COL_L2 \<mapsto> Str b, ''outcome_type'' \<mapsto> Str t,
      ''outcome_name'' \<mapsto> Str nm, ''strength'' \<mapsto> Num s, ''sign'' \<mapsto> Num g]"

definition example_long :: frame where
  "example_long =
     \<lparr>columns = [COL_L1, COL_L2, ''outcome_type'', ''outcome_name'', ''strength'', ''sign''],
      rows =
        [example_row ''Surveillance systems'' ''2. Data sharing'' ''Final Outcomes''
           ''Reduced AMR incidence'' 3 1,
         example_row ''Surveillance systems'' ''2. Data sharing'' ''Final Outcomes''
           ''Reduced AMR incidence'' 3 1,
         example_row ''Laboratory capacity'' ''10. Workforce'' ''Impact''
           ''AMR burden reduced'' 1 (- 1),
         example_row ''Surveillance systems'' ''2. Data sharing'' ''Final Outcomes''
           ''Reduced AMR incidence'' 2.4 0.5]\<rparr>"

definition example_agg :: "agg_row list" where
  "example_agg =
     [\<lparr>agg_l1 = Str ''Laboratory capacity'', agg_l2 = Str ''10. Workforce'',
       agg_outcome_type = Str ''Impact'', agg_outcome_name = Str ''AMR burden reduced'',
       agg_n = 1, agg_mean_strength = Some 1, agg_mean_direction = Some (- 1)\<rparr>,
      \<lparr>agg_l1 = Str ''Surveillance systems'', agg_l2 = Str ''2. Data sharing'',
       agg_outcome_type = Str ''Final Outcomes'', agg_outcome_name = Str ''Reduced AMR incidence'',
       agg_n = 3, agg_mean_strength = Some 2.8, agg_mean_direction = Some (5 / 6)\<rparr>]"

text \<open>A click on the bubble of the second aggregate row, and two clicks on headers.\<close>

definition example_click :: point where
  "example_click =
     \<lparr>point_x = x_key (\<lambda>x. []) (example_agg ! 1), point_y = y_key (\<lambda>x. []) (example_agg ! 1)\<rparr>"

definition example_click_xhdr :: point where
  "example_click_xhdr =
     \<lparr>point_x = HDR_PREFIX_X @ ''Impact'', point_y = y_key (\<lambda>x. []) (example_agg ! 1)\<rparr>"

definition example_click_yhdr :: point where
  "example_click_yhdr =
     \<lparr>point_x = x_key (\<lambda>x. []) (example_agg ! 1),
      point_y = HDR_PREFIX_Y @ ''Surveillance systems''\<rparr>"

text \<open>Aggregate rows that differ in one level only.\<close>

definition l1_row :: "string \<Rightarrow> agg_row" where
  "l1_row s =
     \<lparr>agg_l1 = Str s, agg_l2 = Str ''1. General'',
      agg_outcome_type = Str ''Impact'', agg_outcome_name = Str ''AMR burden reduced'',
      agg_n = 1, agg_mean_strength = None, agg_mean_direction = None\<rparr>"

definition example_l1_agg :: "agg_row list" where
  "example_l1_agg =
     map l1_row [''Governance'', ''Laboratory capacity'', ''SURVEILLANCE of use'',
                 ''Surveillance systems'', ''Workforce'']"

definition l2_row :: "string \<Rightarrow> agg_row" where
  "l2_row s =
     \<lparr>agg_l1 = Str ''Laboratory capacity'', agg_l2 = Str s,
      agg_outcome_type = Str ''Impact'', agg_outcome_name = Str ''AMR burden reduced'',
      agg_n = 1, agg_mean_strength = None, agg_mean_direction = None\<rparr>"

definition example_l2_agg :: "agg_row list" where
  "example_l2_agg = map l2_row [''10. Workforce'', ''2. Training'', ''Other'']"

definition sentinel_l2_agg :: "agg_row list" where
  "sentinel_l2_agg = map l2_row [''10000. Zoonoses'', ''Other'']"

text \<open>A loaded table without the impact columns, of one row with no final outcome.\<close>

definition example_df :: frame where
  "example_df =
     \<lparr>columns = [COL_L1, COL_L2, COL_TITLE, COL_INT_OUT, COL_INT_STRENGTH, COL_INT_SIGN,
                 COL_FIN_OUT, COL_FIN_STRENGTH, COL_FIN_SIGN],
      rows =
        [[COL_L1 \<mapsto> Str ''Surveillance systems'', COL_L2 \<mapsto> Str ''2. Data sharing'',
          COL_TITLE \<mapsto> Str ''A study'', COL_INT_OUT \<mapsto> Str ''Better data'',
          COL_INT_STRENGTH \<mapsto> Num 2, COL_INT_SIGN \<mapsto> Num 1,
          COL_FIN_OUT \<mapsto> NaN, COL_FIN_STRENGTH \<mapsto> NaN, COL_FIN_SIGN \<mapsto> NaN]]\<rparr>"

section \<open>Properties\<close>

subsection \<open>Splitting a key at the separator\<close>

lemma split_once_prefix:
  "pre \<noteq> [] \<Longrightarrow> split_once pre (pre @ rest) = Some ([], rest)"
  by (cases pre) simp_all

lemma split_once_first:
  "sep \<noteq> [] \<Longrightarrow> \<not> contains sep (a @ butlast sep) \<Longrightarrow>
   split_once sep (a @ sep @ b) = Some (a, b)"
proof (induction a)
  case Nil
  then show ?case by (cases sep) auto
next
  case (Cons c a)
  have np: "\<not> prefix sep (c # a @ butlast sep)"
    using Cons.prems(2) by simp
  have "\<not> prefix sep (c # a @ sep @ b)"
  proof
    assume p: "prefix sep (c # a @ sep @ b)"
    have "sep = butlast sep @ [last sep]"
      using Cons.prems(1) by simp
    then have "c # a @ sep @ b = (c # a @ butlast sep) @ (last sep # b)"
      by (metis append.assoc append_Cons append_Nil)
    then have q: "prefix (c # a @ butlast sep) (c # a @ sep @ b)"
      by (metis prefixI)
    have "length sep \<le> length (c # a @ butlast sep)"
      by simp
    with p q have "prefix sep (c # a @ butlast sep)"
      by (rule prefix_length_prefix)
    with np show False ..
  qed
  moreover have "split_once sep (a @ sep @ b) = Some (a, b)"
    using Cons by simp
  ultimately show ?case by simp
qed

text \<open>
  An occurrence of the separator that starts inside the first field and runs into the
  separator itself needs the field to end with \<open>" ||"\<close>.
\<close>

lemma sep_overlap:
  assumes "prefix SEP (c # a @ '' ||'')"
  shows "contains SEP (c # a) \<or> suffix '' ||'' (c # a)"
proof (cases a)
  case Nil
  with assms show ?thesis by (simp add: SEP_def)
next
  case (Cons x xs)
  note a1 = this
  show ?thesis
  proof (cases xs)
    case Nil
    with assms a1 show ?thesis by (simp add: SEP_def)
  next
    case (Cons y ys)
    note a2 = this
    show ?thesis
    proof (cases ys)
      case Nil
      with assms a1 a2 show ?thesis by (auto simp: SEP_def suffix_to_prefix)
    next
      case (Cons z zs)
      with assms a1 a2 show ?thesis by (auto simp: SEP_def)
    qed
  qed
qed

lemma contains_sep_butlast:
  "contains SEP (a @ '' ||'') \<Longrightarrow> contains SEP a \<or> suffix '' ||'' a"
proof (induction a)
  case Nil
  then show ?case by (simp add: SEP_def)
next
  case (Cons c a)
  show ?case
  proof (cases "prefix SEP (c # a @ '' ||'')")
    case True
    then show ?thesis by (rule sep_overlap)
  next
    case False
    then have "contains SEP (a @ '' ||'')"
      using Cons.prems by simp
    then have "contains SEP a \<or> suffix '' ||'' a"
      by (rule Cons.IH)
    then show ?thesis by (auto simp: suffix_Cons)
  qed
qed

lemma parse_key_joined:
  assumes "pre \<noteq> []" and "\<not> contains SEP a" and "\<not> suffix '' ||'' a"
  shows "parse_key pre (pre @ a @ SEP @ b) = Inr (a, b)"
proof -
  have "\<not> contains SEP (a @ butlast SEP)"
    using assms(2,3) contains_sep_butlast [of a] by (auto simp: SEP_def)
  moreover have "SEP \<noteq> []"
    by (simp add: SEP_def)
  ultimately have "split_once SEP (a @ SEP @ b) = Some (a, b)"
    by (rule split_once_first [rotated])
  moreover have "split_once pre (pre @ a @ SEP @ b) = Some ([], a @ SEP @ b)"
    using assms(1) by (rule split_once_prefix)
  ultimately show ?thesis
    using assms(1) by (simp add: parse_key_def str_split1_def bind_err_def SEP_def)
qed

lemma tier_no_sep:
  "t \<in> set tiers \<Longrightarrow> \<not> contains SEP t \<and> \<not> suffix '' ||'' t"
  by (auto simp: tiers_def SEP_def suffix_to_prefix)

subsection \<open>Round trip of the data keys\<close>

text \<open>
  C1, as the claim states it, fails: a level-1 name that ends with \<open>" ||"\<close> contains no
  separator, yet in the key its last three characters and the first of the separator
  read as a separator, and the parse splits there.
\<close>

theorem axis_key_round_trip_counterexample:
  "\<not> contains SEP ''One Health ||'' \<and> \<not> contains SEP ''1. Labs''
   \<and> parse_key ROW_PREFIX_Y
       (y_key (\<lambda>x. [])
         \<lparr>agg_l1 = Str ''One Health ||'', agg_l2 = Str ''1. Labs'',
          agg_outcome_type = Str ''Impact'', agg_outcome_name = Str ''Burden'',
          agg_n = 1, agg_mean_strength = None, agg_mean_direction = None\<rparr>)
     = Inr (''One Health'', ''|| 1. Labs'')
   \<and> (''One Health'', ''|| 1. Labs'') \<noteq> (''One Health ||'', ''1. Labs'')"
  by (simp add: parse_key_def y_key_def astype_str_def str_split1_def bind_err_def
      SEP_def ROW_PREFIX_Y_def)

text \<open>
  C1, amended. For an aggregate row whose four key cells are strings: if neither level
  contains the separator and level 1 does not end with \<open>" ||"\<close>, parsing the row's
  \<open>y_key\<close> gives back the two levels; if the outcome type is one of the three tier
  names (it always is in the tables the script builds) and the outcome name does not
  contain the separator, parsing the row's \<open>x_key\<close> gives back type and name.
\<close>

theorem axis_key_round_trip:
  assumes "agg_l1 a = Str l1" and "agg_l2 a = Str l2"
    and "agg_outcome_type a = Str t" and "agg_outcome_name a = Str nm"
    and "\<not> contains SEP l1" and "\<not> contains SEP l2" and "\<not> suffix '' ||'' l1"
    and "t \<in> set tiers" and "\<not> contains SEP nm"
  shows "parse_key ROW_PREFIX_Y (y_key fmt a) = Inr (l1, l2)
         \<and> parse_key COL_PREFIX_X (x_key fmt a) = Inr (t, nm)"
proof -
  have "ROW_PREFIX_Y \<noteq> []" and "COL_PREFIX_X \<noteq> []"
    by (simp_all add: ROW_PREFIX_Y_def COL_PREFIX_X_def)
  moreover have "\<not> contains SEP t \<and> \<not> suffix '' ||'' t"
    using assms(8) by (rule tier_no_sep)
  ultimately show ?thesis
    using assms(1-5,7) by (simp add: y_key_def x_key_def astype_str_def parse_key_joined)
qed

theorem axis_key_round_trip_witness:
  "parse_key ROW_PREFIX_Y
     (y_key (\<lambda>x. [])
       \<lparr>agg_l1 = Str ''Surveillance systems'', agg_l2 = Str ''2. Data sharing'',
        agg_outcome_type = Str ''Final Outcomes'', agg_outcome_name = Str ''Reduced AMR incidence'',
        agg_n = 3, agg_mean_strength = Some 2.8, agg_mean_direction = Some (5 / 6)\<rparr>)
     = Inr (''Surveillance systems'', ''2. Data sharing'')
   \<and> parse_key COL_PREFIX_X
     (x_key (\<lambda>x. [])
       \<lparr>agg_l1 = Str ''Surveillance systems'', agg_l2 = Str ''2. Data sharing'',
        agg_outcome_type = Str ''Final Outcomes'', agg_outcome_name = Str ''Reduced AMR incidence'',
        agg_n = 3, agg_mean_strength = Some 2.8, agg_mean_direction = Some (5 / 6)\<rparr>)
     = Inr (''Final Outcomes'', ''Reduced AMR incidence'')"
  using axis_key_round_trip [of
      "\<lparr>agg_l1 = Str ''Surveillance systems'', agg_l2 = Str ''2. Data sharing'',
        agg_outcome_type = Str ''Final Outcomes'', agg_outcome_name = Str ''Reduced AMR incidence'',
        agg_n = 3, agg_mean_strength = Some 2.8, agg_mean_direction = Some (5 / 6)\<rparr>"
      "''Surveillance systems''" "''2. Data sharing''" "''Final Outcomes''"
      "''Reduced AMR incidence''" "\<lambda>x. []"]
  by (simp add: SEP_def tiers_def suffix_to_prefix)

subsection \<open>Grouping\<close>

lemma tally_keys:
  "map fst (tally k r gs) = (if k \<in> set (map fst gs) then map fst gs else map fst gs @ [k])"
  by (induction gs) force+

lemma tally_distinct:
  "distinct (map fst gs) \<Longrightarrow> distinct (map fst (tally k r gs))"
  by (simp add: tally_keys)

lemma tally_map_of:
  "map_of (tally k r gs) =
     (map_of gs)(k \<mapsto> (case map_of gs k of None \<Rightarrow> [r] | Some rs \<Rightarrow> rs @ [r]))"
  by (induction gs) (auto simp: fun_eq_iff)

lemma filter_key_absent: "k \<notin> f ` set xs \<Longrightarrow> filter (\<lambda>r. f r = k) xs = []"
  by (induction xs) auto

lemma grouped_tally:
  assumes "grouped f gs xs"
  shows "grouped f (tally (f r) r gs) (xs @ [r])"
proof -
  have d: "distinct (map fst (tally (f r) r gs))"
    using assms by (simp add: grouped_def tally_distinct)
  have m: "map_of (tally (f r) r gs) k =
        (if k \<in> f ` set (xs @ [r]) then Some (filter (\<lambda>r. f r = k) (xs @ [r])) else None)" for k
  proof (cases "k = f r")
    case True
    then show ?thesis
      using assms
      by (cases "f r \<in> f ` set xs") (simp_all add: grouped_def tally_map_of filter_key_absent)
  next
    case False
    then show ?thesis
      using assms by (auto simp add: grouped_def tally_map_of)
  qed
  show ?thesis
    unfolding grouped_def using d m by blast
qed

lemma grouped_fold:
  "grouped f gs xs \<Longrightarrow> grouped f (fold (\<lambda>r gs. tally (f r) r gs) ys gs) (xs @ ys)"
proof (induction ys arbitrary: gs xs)
  case Nil
  then show ?case by simp
next
  case (Cons y ys)
  have "grouped f (tally (f y) y gs) (xs @ [y])"
    using Cons.prems by (rule grouped_tally)
  then have "grouped f (fold (\<lambda>r gs. tally (f r) r gs) ys (tally (f y) y gs)) ((xs @ [y]) @ ys)"
    by (rule Cons.IH)
  then show ?case by simp
qed

lemma grouped_groups: "grouped group_key (groups xs) xs"
  using grouped_fold [of group_key "[]" "[]" xs] by (simp add: groups_def grouped_def)

lemma groups_member:
  assumes "(k, rs) \<in> set (groups xs)"
  shows "rs = filter (\<lambda>r. group_key r = k) xs \<and> k \<in> group_key ` set xs"
proof -
  have g: "grouped group_key (groups xs) xs"
    by (rule grouped_groups)
  then have "map_of (groups xs) k = Some rs"
    using assms by (simp add: grouped_def)
  then show ?thesis
    using g unfolding grouped_def by (metis option.distinct(1) option.inject)
qed

lemma grouped_keys:
  assumes "grouped f gs xs"
  shows "fst ` set gs = f ` set xs"
proof -
  have "k \<in> dom (map_of gs) \<longleftrightarrow> k \<in> f ` set xs" for k
    using assms by (simp add: grouped_def dom_def)
  then have "dom (map_of gs) = f ` set xs"
    by blast
  then show ?thesis
    by (simp add: dom_map_of_conv_image_fst)
qed

lemma groups_keys: "fst ` set (groups xs) = group_key ` set xs"
  using grouped_groups by (rule grouped_keys)

lemma groups_distinct: "distinct (map fst (groups xs))"
  using grouped_groups [of xs] by (simp add: grouped_def)

lemma key_of_group: "key_of (agg_of_group g) = fst g"
  by (cases g) (auto simp: key_of_def agg_of_group_def)

lemma agg_rows:
  assumes "agg lt = Inr ag"
  shows "ag = map agg_of_group (sort_key (\<lambda>g. key_rank (fst g)) (groups (rows lt)))"
  using assms by (simp add: agg_def split: if_splits)

lemma agg_member:
  assumes "agg lt = Inr ag" and "a \<in> set ag"
  shows "agg_n a = length (filter (\<lambda>r. group_key r = key_of a) (rows lt))
         \<and> key_of a \<in> group_key ` set (rows lt)"
proof -
  from assms have "a \<in> agg_of_group ` set (groups (rows lt))"
    by (auto simp: agg_def split: if_splits)
  then obtain k rs where g: "(k, rs) \<in> set (groups (rows lt))" and a: "a = agg_of_group (k, rs)"
    by auto
  from g have "rs = filter (\<lambda>r. group_key r = k) (rows lt) \<and> k \<in> group_key ` set (rows lt)"
    by (rule groups_member)
  moreover have "key_of a = k"
    using a by (simp add: key_of_group)
  moreover have "agg_n a = length rs"
    using a by (cases k) (simp add: agg_of_group_def)
  ultimately show ?thesis by simp
qed

lemma agg_keys:
  assumes "agg lt = Inr ag"
  shows "map key_of ag = map fst (sort_key (\<lambda>g. key_rank (fst g)) (groups (rows lt)))"
  unfolding agg_rows [OF assms] by (simp add: key_of_group)

lemma agg_distinct:
  assumes "agg lt = Inr ag"
  shows "distinct (map key_of ag)"
proof -
  have "distinct (map fst (sort_key (\<lambda>g. key_rank (fst g)) (groups (rows lt))))
        = distinct (map fst (groups (rows lt)))"
    by (simp add: distinct_map)
  then show ?thesis
    using assms by (simp add: agg_keys groups_distinct)
qed

lemma example_groups:
  "groups (rows example_long) =
    [((Str ''Surveillance systems'', Str ''2. Data sharing'', Str ''Final Outcomes'',
       Str ''Reduced AMR incidence''),
      [rows example_long ! 0, rows example_long ! 1, rows example_long ! 3]),
     ((Str ''Laboratory capacity'', Str ''10. Workforce'', Str ''Impact'',
       Str ''AMR burden reduced''),
      [rows example_long ! 2])]"
  by (simp add: groups_def example_long_def example_row_def group_key_def cell_at_def
      COL_L1_def COL_L2_def)

lemma agg_example_long: "agg example_long = Inr example_agg"
  by (simp add: agg_def example_groups key_rank_def agg_of_group_def mean_skipna_def nums_def
      cell_at_def)
    (simp add: example_long_def example_row_def example_agg_def COL_L1_def COL_L2_def)

subsection \<open>Counts of the aggregate table\<close>

text \<open>
  C2. In the aggregate table built from a long table, the field \<open>n\<close> of every row is the
  number of long rows whose four key cells are that row's; the aggregate table has one
  row for each tuple of the long table and no two rows for the same tuple.
\<close>

theorem agg_n_counts:
  assumes "agg lt = Inr ag"
  shows "(\<forall>a\<in>set ag. agg_n a = length (filter (\<lambda>r. group_key r = key_of a) (rows lt)))
         \<and> distinct (map key_of ag)
         \<and> key_of ` set ag = group_key ` set (rows lt)"
proof -
  have "key_of ` set ag = set (map key_of ag)"
    by simp
  also have "\<dots> = fst ` set (groups (rows lt))"
    using assms by (simp add: agg_keys)
  finally have "key_of ` set ag = group_key ` set (rows lt)"
    by (simp add: groups_keys)
  then show ?thesis
    using assms by (simp add: agg_member agg_distinct)
qed

text \<open>
  The example of the claim: three long rows of one tuple, with strengths 3, 3, 2.4 and
  signs 1, 1, 0.5, give one aggregate row with \<open>n = 3\<close>, labelled \<open>high\<close> and
  \<open>mostly positive\<close>.
\<close>

theorem agg_n_counts_witness:
  "agg example_long = Inr example_agg
   \<and> agg_n (example_agg ! 1) = 3
   \<and> length (filter (\<lambda>r. group_key r = key_of (example_agg ! 1)) (rows example_long)) = 3
   \<and> distinct (map key_of example_agg)
   \<and> strength_label (example_agg ! 1) = ''high''
   \<and> direction_label (example_agg ! 1) = Some ''mostly positive''"
proof -
  have e: "agg example_long = Inr example_agg"
    by (rule agg_example_long)
  have m: "example_agg ! 1 \<in> set example_agg"
    by (simp add: example_agg_def)
  have n: "agg_n (example_agg ! 1) = 3"
    by (simp add: example_agg_def)
  have l: "strength_label (example_agg ! 1) = ''high''"
    "direction_label (example_agg ! 1) = Some ''mostly positive''"
    by (simp_all add: example_agg_def strength_label_def direction_label_def
        map_strength_label_def map_direction_label_def)
  show ?thesis
    using agg_n_counts [OF e] e m n l by auto
qed

subsection \<open>The detail callback on clicks\<close>

lemma contains_split:
  "contains sep s \<Longrightarrow> \<exists>a b. split_once sep s = Some (a, b)"
  by (induction s) (auto split: option.splits)

lemma contains_prefix: "prefix sep s \<Longrightarrow> contains sep s"
  by (cases s) simp_all

lemma contains_mid: "contains sep (u @ sep @ v)"
proof (induction u)
  case Nil
  show ?case by (simp add: contains_prefix)
next
  case (Cons c u)
  then show ?case by simp
qed

text \<open>A key that carries its prefix and a separator always parses.\<close>

lemma parse_key_total:
  assumes "pre \<noteq> []"
  shows "\<exists>a b. parse_key pre (pre @ u @ SEP @ v) = Inr (a, b)"
proof -
  obtain a b where "split_once SEP (u @ SEP @ v) = Some (a, b)"
    using contains_split [OF contains_mid] by blast
  moreover have "split_once pre (pre @ u @ SEP @ v) = Some ([], u @ SEP @ v)"
    using assms by (rule split_once_prefix)
  ultimately show ?thesis
    using assms by (simp add: parse_key_def str_split1_def bind_err_def SEP_def)
qed

text \<open>The decimal text of a count reads back as the count.\<close>

lemma digits_val_snoc: "digits_val (xs @ [c]) = 10 * digits_val xs + (of_char c - 48)"
  by (simp add: digits_val_def)

lemma digit_char_val:
  assumes "d < 10"
  shows "of_char (digit_char d) - 48 = d"
proof -
  from assms consider "d = 0" | "d = 1" | "d = 2" | "d = 3" | "d = 4"
    | "d = 5" | "d = 6" | "d = 7" | "d = 8" | "d = 9"
    by atomize_elim arith
  then show ?thesis
    by cases (simp_all add: digit_char_def)
qed

lemma digits_val_str_nat: "digits_val (str_nat k) = k"
proof (induction k rule: str_nat.induct)
  case (1 k)
  show ?case
  proof (cases "k < 10")
    case True
    then show ?thesis
      using digits_val_snoc [of "[]" "digit_char k"]
      by (simp add: str_nat.simps [of k] digit_char_val digits_val_def)
  next
    case False
    then have "digits_val (str_nat (k div 10)) = k div 10"
      by (rule "1.IH")
    then show ?thesis
      using False by (simp add: str_nat.simps [of k] digits_val_snoc digit_char_val)
  qed
qed

lemma str_nat_inj: "str_nat j = str_nat k \<Longrightarrow> j = k"
  by (metis digits_val_str_nat)

lemma detail_title_count:
  "detail_title t nm l1 l2 j = detail_title t nm l1 l2 k \<Longrightarrow> j = k"
  by (simp add: detail_title_def str_nat_inj)

lemma prefix_keys:
  "prefix COL_PREFIX_X (x_key fmt a)" "prefix ROW_PREFIX_Y (y_key fmt a)"
  by (simp_all add: x_key_def y_key_def)

text \<open>
  C5. Without a click state the callback returns the empty list and the first prompt;
  when the clicked x key lacks the prefix of a data column or the clicked y key lacks
  the prefix of a data row, it returns the empty list and the second prompt. Neither
  is an error.
\<close>

theorem show_details_non_data:
  "show_details lt None = Inr ([], ''Click a bubble to see the article list.'')
   \<and> (\<not> prefix COL_PREFIX_X (point_x p) \<or> \<not> prefix ROW_PREFIX_Y (point_y p) \<longrightarrow>
        show_details lt (Some (p # ps)) =
          Inr ([], ''Select a bubble (row Level 2 '' @ TIMES @ '' outcome) to see details.''))"
  by (auto simp add: show_details_def)

theorem show_details_non_data_witness:
  "show_details example_long None = Inr ([], ''Click a bubble to see the article list.'')
   \<and> show_details example_long (Some [example_click_xhdr]) =
        Inr ([], ''Select a bubble (row Level 2 '' @ TIMES @ '' outcome) to see details.'')
   \<and> show_details example_long (Some [example_click_yhdr]) =
        Inr ([], ''Select a bubble (row Level 2 '' @ TIMES @ '' outcome) to see details.'')"
  using show_details_non_data [of example_long example_click_xhdr "[]"]
    show_details_non_data [of example_long example_click_yhdr "[]"]
  by (simp add: example_click_xhdr_def example_click_yhdr_def HDR_PREFIX_X_def HDR_PREFIX_Y_def
      COL_PREFIX_X_def ROW_PREFIX_Y_def)

text \<open>
  C10. A click on a data bubble, that is on the \<open>x_key\<close> and \<open>y_key\<close> of an aggregate
  row, over a long table that has the four key columns: both keys parse, the callback
  returns, the title it returns is the title format filled with the parsed fields and
  the length of the returned list, that length is the number of long rows whose four
  key cells are the parsed strings, and no other count gives the same title.
\<close>

theorem show_details_count:
  assumes "point_x p = x_key fmt a" and "point_y p = y_key fmt a"
    and "set [COL_L1, COL_L2, ''outcome_type'', ''outcome_name''] \<subseteq> set (columns lt)"
  shows "\<exists>recs t nm l1 l2.
           parse_key COL_PREFIX_X (point_x p) = Inr (t, nm)
         \<and> parse_key ROW_PREFIX_Y (point_y p) = Inr (l1, l2)
         \<and> show_details lt (Some (p # ps)) = Inr (recs, detail_title t nm l1 l2 (length recs))
         \<and> length recs = length (filter (matches l1 l2 t nm) (rows lt))
         \<and> (\<forall>k. detail_title t nm l1 l2 k = detail_title t nm l1 l2 (length recs)
                \<longrightarrow> k = length recs)"
proof -
  have "COL_PREFIX_X \<noteq> []" and "ROW_PREFIX_Y \<noteq> []"
    by (simp_all add: COL_PREFIX_X_def ROW_PREFIX_Y_def)
  then obtain t nm l1 l2 where
    x: "parse_key COL_PREFIX_X (point_x p) = Inr (t, nm)" and
    y: "parse_key ROW_PREFIX_Y (point_y p) = Inr (l1, l2)"
    using assms(1,2) parse_key_total unfolding x_key_def y_key_def by metis
  have "show_details lt (Some (p # ps)) =
      Inr (map (detail_record lt) (filter (matches l1 l2 t nm) (rows lt)),
           detail_title t nm l1 l2 (length (filter (matches l1 l2 t nm) (rows lt))))"
    using assms x y by (simp add: show_details_def prefix_keys bind_err_def Let_def)
  then show ?thesis
    using x y detail_title_count by force
qed

theorem show_details_count_witness:
  "\<exists>recs. show_details example_long (Some [example_click]) =
      Inr (recs, detail_title ''Final Outcomes'' ''Reduced AMR incidence''
                   ''Surveillance systems'' ''2. Data sharing'' 3)
    \<and> length recs = 3 \<and> str_nat 3 = ''3''"
proof -
  have x: "parse_key COL_PREFIX_X (point_x example_click)
      = Inr (''Final Outcomes'', ''Reduced AMR incidence'')"
    by (simp add: example_click_def example_agg_def x_key_def astype_str_def parse_key_def
        str_split1_def bind_err_def SEP_def COL_PREFIX_X_def)
  have y: "parse_key ROW_PREFIX_Y (point_y example_click)
      = Inr (''Surveillance systems'', ''2. Data sharing'')"
    by (simp add: example_click_def example_agg_def y_key_def astype_str_def parse_key_def
        str_split1_def bind_err_def SEP_def ROW_PREFIX_Y_def)
  have f: "length (filter (matches ''Surveillance systems'' ''2. Data sharing''
      ''Final Outcomes'' ''Reduced AMR incidence'') (rows example_long)) = 3"
    by (simp add: example_long_def example_row_def matches_def cell_at_def COL_L1_def COL_L2_def)
  have c: "set [COL_L1, COL_L2, ''outcome_type'', ''outcome_name''] \<subseteq> set (columns example_long)"
    by (simp add: example_long_def)
  have s: "str_nat 3 = ''3''"
    by (simp add: str_nat.simps digit_char_def)
  have px: "point_x example_click = x_key (\<lambda>x. []) (example_agg ! 1)"
    and py: "point_y example_click = y_key (\<lambda>x. []) (example_agg ! 1)"
    by (simp_all add: example_click_def)
  from show_details_count [OF px py c, of "[]"] x y f s
  show ?thesis by auto
qed

subsection \<open>Bubble size\<close>






subsection \<open>The impact tier without its columns\<close>

lemma unique_set: "set (unique xs) = set xs"
  by (induction xs rule: unique.induct) auto

lemma unique_distinct: "distinct (unique xs)"
  by (induction xs rule: unique.induct) (auto simp: unique_set)

lemma unique_append_subset:
  "set ys \<subseteq> set xs \<Longrightarrow> unique (xs @ ys) = unique xs"
proof (induction xs arbitrary: ys rule: unique.induct)
  case 1
  then show ?case by simp
next
  case (2 x xs)
  have "set (removeAll x ys) \<subseteq> set (removeAll x xs)"
    using "2.prems" by auto
  then have "unique (removeAll x xs @ removeAll x ys) = unique (removeAll x xs)"
    by (rule "2.IH")
  then show ?case by simp
qed

lemma imp_long_absent:
  assumes "\<not> set [COL_IMP_OUT, COL_IMP_STRENGTH, COL_IMP_SIGN] \<subseteq> set (columns df)"
  shows "imp_long df il = Inr \<lparr>columns = columns il, rows = []\<rparr>"
  using assms by (auto simp: imp_long_def)

text \<open>An empty table on the columns of the first table adds nothing to a concatenation.\<close>

lemma concat_empty_tier:
  "concat_frames [il, fl, \<lparr>columns = columns il, rows = []\<rparr>] = concat_frames [il, fl]"
proof -
  have "unique ((columns il @ columns fl) @ columns il) = unique (columns il @ columns fl)"
    by (rule unique_append_subset) simp
  then show ?thesis
    by (simp add: concat_frames_def)
qed

lemma cols_keep_subset: "set (cols_keep df) \<subseteq> set (columns df)"
  by (auto simp: cols_keep_def)

text \<open>A tier is built without error when the two levels and its three columns are there.\<close>

lemma tier_long_ok:
  assumes "COL_L1 \<in> set (columns df)" and "COL_L2 \<in> set (columns df)"
    and "oc \<in> set (columns df)" and "sc \<in> set (columns df)" and "gc \<in> set (columns df)"
  shows "\<exists>f. tier_long df tier oc sc gc = Inr f"
proof -
  have k: "COL_L1 \<in> set (cols_keep df)" "COL_L2 \<in> set (cols_keep df)"
    using assms(1,2) by (simp_all add: cols_keep_def keep_base_def)
  have "list_all (\<lambda>c. c \<in> set (columns df)) (cols_keep df @ [oc, sc, gc])"
    using assms(3-5) cols_keep_subset [of df] by (auto simp: list_all_iff)
  then show ?thesis
    using k by (simp add: tier_long_def select_cols_def dropna_def bind_err_def)
qed

lemmas col_defs = COL_L1_def COL_L2_def COL_TITLE_def COL_YEAR_def COL_GEOG_def COL_INT_TEXT_def
  COL_INTERV_TEXT_def COL_OUT_TEXT_def COL_IMP_TEXT_def COL_INT_OUT_def COL_INT_STRENGTH_def
  COL_INT_SIGN_def COL_FIN_OUT_def COL_FIN_STRENGTH_def COL_FIN_SIGN_def COL_IMP_OUT_def
  COL_IMP_STRENGTH_def COL_IMP_SIGN_def NL_def ZWSP_def

lemma example_int_long:
  "\<exists>il. int_long example_df = Inr il
     \<and> columns il = [COL_L1, COL_L2, COL_TITLE, COL_INT_OUT, COL_INT_STRENGTH, COL_INT_SIGN,
                     ''outcome_type'', ''outcome_name'', ''strength'', ''sign'']
     \<and> length (rows il) = 1"
  by (simp add: int_long_def tier_long_def select_cols_def dropna_def assign_def bind_err_def
      cols_keep_def keep_base_def example_df_def cell_at_def col_defs)

lemma example_fin_long:
  "\<exists>fl. fin_long example_df = Inr fl \<and> rows fl = []"
  by (simp add: fin_long_def tier_long_def select_cols_def dropna_def assign_def bind_err_def
      cols_keep_def keep_base_def example_df_def cell_at_def col_defs)

lemma example_no_impact:
  "\<not> set [COL_IMP_OUT, COL_IMP_STRENGTH, COL_IMP_SIGN] \<subseteq> set (columns example_df)"
  by (simp add: example_df_def col_defs)

text \<open>
  C6. When the three impact columns are not all columns of the loaded table, and the
  columns the other two tiers read are, the script builds all three tiers and the long
  table without error: the impact tier is the table with no rows on exactly the columns
  of the intermediate tier, and the long table is the concatenation of the three tiers,
  which is that of the intermediate and final tiers alone.
\<close>

theorem imp_long_without_columns:
  assumes "\<not> set [COL_IMP_OUT, COL_IMP_STRENGTH, COL_IMP_SIGN] \<subseteq> set (columns df)"
    and "set [COL_L1, COL_L2, COL_INT_OUT, COL_INT_STRENGTH, COL_INT_SIGN,
              COL_FIN_OUT, COL_FIN_STRENGTH, COL_FIN_SIGN] \<subseteq> set (columns df)"
  shows "\<exists>il fl. int_long df = Inr il \<and> fin_long df = Inr fl
           \<and> imp_long df il = Inr \<lparr>columns = columns il, rows = []\<rparr>
           \<and> long df = Inr (concat_frames [il, fl, \<lparr>columns = columns il, rows = []\<rparr>])
           \<and> long df = Inr (concat_frames [il, fl])"
proof -
  obtain il where il: "int_long df = Inr il"
    unfolding int_long_def using assms(2) tier_long_ok [of df COL_INT_OUT COL_INT_STRENGTH COL_INT_SIGN]
    by auto
  obtain fl where fl: "fin_long df = Inr fl"
    unfolding fin_long_def using assms(2) tier_long_ok [of df COL_FIN_OUT COL_FIN_STRENGTH COL_FIN_SIGN]
    by auto
  have i: "imp_long df il = Inr \<lparr>columns = columns il, rows = []\<rparr>"
    using assms(1) by (rule imp_long_absent)
  then have "long df = Inr (concat_frames [il, fl, \<lparr>columns = columns il, rows = []\<rparr>])"
    using il fl by (simp add: long_def bind_err_def)
  then show ?thesis
    using il fl i by (simp add: concat_empty_tier)
qed

theorem imp_long_without_columns_witness:
  "\<exists>il fl. int_long example_df = Inr il \<and> fin_long example_df = Inr fl
     \<and> imp_long example_df il =
         Inr \<lparr>columns = [COL_L1, COL_L2, COL_TITLE, COL_INT_OUT, COL_INT_STRENGTH, COL_INT_SIGN,
                          ''outcome_type'', ''outcome_name'', ''strength'', ''sign''],
              rows = []\<rparr>
     \<and> long example_df = Inr (concat_frames [il, fl])
     \<and> length (rows il) = 1 \<and> rows fl = []"
proof -
  have c: "set [COL_L1, COL_L2, COL_INT_OUT, COL_INT_STRENGTH, COL_INT_SIGN,
              COL_FIN_OUT, COL_FIN_STRENGTH, COL_FIN_SIGN] \<subseteq> set (columns example_df)"
    by (simp add: example_df_def)
  from imp_long_without_columns [OF example_no_impact c]
  obtain il fl where r: "int_long example_df = Inr il" "fin_long example_df = Inr fl"
    "imp_long example_df il = Inr \<lparr>columns = columns il, rows = []\<rparr>"
    "long example_df = Inr (concat_frames [il, fl])"
    by blast
  from example_int_long r(1) have il: "columns il =
      [COL_L1, COL_L2, COL_TITLE, COL_INT_OUT, COL_INT_STRENGTH, COL_INT_SIGN,
       ''outcome_type'', ''outcome_name'', ''strength'', ''sign'']" "length (rows il) = 1"
    by auto
  from example_fin_long r(2) have fl: "rows fl = []"
    by auto
  from r il fl show ?thesis
    by auto
qed

subsection \<open>Order of the Y axis\<close>

lemma filter_not_filter: "filter P (filter (\<lambda>x. \<not> P x) xs) = []"
  by (induction xs) auto

lemma split_order:
  assumes "\<forall>x\<in>set as. P x" and "\<forall>x\<in>set bs. \<not> P x"
    and "i < length (as @ bs)" and "j < length (as @ bs)"
    and "P ((as @ bs) ! i)" and "\<not> P ((as @ bs) ! j)"
  shows "i < j"
proof -
  have i: "i < length as"
  proof (rule ccontr)
    assume "\<not> i < length as"
    then have "(as @ bs) ! i = bs ! (i - length as)" and "i - length as < length bs"
      using assms(3) by (auto simp: nth_append)
    then have "(as @ bs) ! i \<in> set bs"
      by simp
    with assms(2,5) show False by blast
  qed
  have "\<not> j < length as"
  proof
    assume "j < length as"
    then have "(as @ bs) ! j \<in> set as"
      by (simp add: nth_append)
    with assms(1,6) show False by blast
  qed
  with i show ?thesis by simp
qed

lemma partition_distinct:
  "distinct xs \<Longrightarrow> distinct (filter P xs @ filter (\<lambda>x. \<not> P x) xs)"
  by (induction xs) auto

lemma partition_set: "set (filter P xs @ filter (\<lambda>x. \<not> P x) xs) = set xs"
  by auto

lemma partition_order:
  assumes "i < length (filter P xs @ filter (\<lambda>x. \<not> P x) xs)"
    and "j < length (filter P xs @ filter (\<lambda>x. \<not> P x) xs)"
    and "P ((filter P xs @ filter (\<lambda>x. \<not> P x) xs) ! i)"
    and "\<not> P ((filter P xs @ filter (\<lambda>x. \<not> P x) xs) ! j)"
  shows "i < j"
proof -
  have a: "\<forall>x\<in>set (filter P xs). P x"
    by simp
  have b: "\<forall>x\<in>set (filter (\<lambda>x. \<not> P x) xs). \<not> P x"
    by simp
  from a b assms show ?thesis
    by (rule split_order)
qed

lemma example_unique_l1:
  "unique_l1 (\<lambda>x. []) example_l1_agg =
     [Str ''SURVEILLANCE of use'', Str ''Surveillance systems'',
      Str ''Governance'', Str ''Laboratory capacity'', Str ''Workforce'']"
  by (simp add: unique_l1_def l1_first_seen_def example_l1_agg_def l1_row_def is_surveillance_def
      astype_str_def lower_def lower_char_def)

text \<open>
  C7. In \<open>unique_l1\<close>, the order of the groups of the Y axis and of its header keys,
  every level-1 value whose text starts with \<open>surveillance\<close> in any case stands before
  every value whose text does not; the values that do are in the order in which the
  aggregate table first shows them, and so are the values that do not; no value is
  lost or repeated.
\<close>

theorem unique_l1_surveillance_first:
  "(\<forall>i j. i < length (unique_l1 fmt ag) \<and> j < length (unique_l1 fmt ag)
        \<and> is_surveillance fmt (unique_l1 fmt ag ! i)
        \<and> \<not> is_surveillance fmt (unique_l1 fmt ag ! j) \<longrightarrow> i < j)
   \<and> filter (\<lambda>l. is_surveillance fmt l) (unique_l1 fmt ag)
       = filter (\<lambda>l. is_surveillance fmt l) (l1_first_seen ag)
   \<and> filter (\<lambda>l. \<not> is_surveillance fmt l) (unique_l1 fmt ag)
       = filter (\<lambda>l. \<not> is_surveillance fmt l) (l1_first_seen ag)
   \<and> set (unique_l1 fmt ag) = set (l1_first_seen ag)
   \<and> distinct (unique_l1 fmt ag)
   \<and> y_header_keys fmt ag = map (hdr_key fmt) (unique_l1 fmt ag)"
proof -
  have d: "distinct (l1_first_seen ag)"
    by (simp add: l1_first_seen_def unique_distinct)
  have 1: "\<forall>i j. i < length (unique_l1 fmt ag) \<and> j < length (unique_l1 fmt ag)
        \<and> is_surveillance fmt (unique_l1 fmt ag ! i)
        \<and> \<not> is_surveillance fmt (unique_l1 fmt ag ! j) \<longrightarrow> i < j"
    unfolding unique_l1_def using partition_order [of _ "is_surveillance fmt" "l1_first_seen ag"]
    by blast
  have 2: "distinct (unique_l1 fmt ag)"
    unfolding unique_l1_def using d by (rule partition_distinct)
  have 3: "set (unique_l1 fmt ag) = set (l1_first_seen ag)"
    unfolding unique_l1_def by (rule partition_set)
  have 4: "filter (\<lambda>l. is_surveillance fmt l) (unique_l1 fmt ag)
       = filter (\<lambda>l. is_surveillance fmt l) (l1_first_seen ag)"
    unfolding unique_l1_def by (simp add: filter_not_filter)
  have 5: "filter (\<lambda>l. \<not> is_surveillance fmt l) (unique_l1 fmt ag)
       = filter (\<lambda>l. \<not> is_surveillance fmt l) (l1_first_seen ag)"
    unfolding unique_l1_def
    using filter_not_filter [of "\<lambda>l. \<not> is_surveillance fmt l" "l1_first_seen ag"] by simp
  have 6: "y_header_keys fmt ag = map (hdr_key fmt) (unique_l1 fmt ag)"
    by (simp add: y_header_keys_def)
  from 1 2 3 4 5 6 show ?thesis by blast
qed

theorem unique_l1_surveillance_first_witness:
  "unique_l1 (\<lambda>x. []) example_l1_agg =
     [Str ''SURVEILLANCE of use'', Str ''Surveillance systems'',
      Str ''Governance'', Str ''Laboratory capacity'', Str ''Workforce'']
   \<and> l1_first_seen example_l1_agg =
     [Str ''Governance'', Str ''Laboratory capacity'', Str ''SURVEILLANCE of use'',
      Str ''Surveillance systems'', Str ''Workforce'']
   \<and> is_surveillance (\<lambda>x. []) (Str ''Surveillance systems'')
   \<and> \<not> is_surveillance (\<lambda>x. []) (Str ''Governance'')
   \<and> filter (\<lambda>l. is_surveillance (\<lambda>x. []) l) (unique_l1 (\<lambda>x. []) example_l1_agg) =
     [Str ''SURVEILLANCE of use'', Str ''Surveillance systems'']"
proof -
  have f: "l1_first_seen example_l1_agg =
     [Str ''Governance'', Str ''Laboratory capacity'', Str ''SURVEILLANCE of use'',
      Str ''Surveillance systems'', Str ''Workforce'']"
    by (simp add: l1_first_seen_def example_l1_agg_def l1_row_def)
  have s: "is_surveillance (\<lambda>x. []) (Str ''Surveillance systems'')"
    "\<not> is_surveillance (\<lambda>x. []) (Str ''Governance'')"
    by (simp_all add: is_surveillance_def astype_str_def lower_def lower_char_def)
  have l: "filter (\<lambda>l. is_surveillance (\<lambda>x. []) l) (l1_first_seen example_l1_agg) =
     [Str ''SURVEILLANCE of use'', Str ''Surveillance systems'']"
    unfolding f by (simp add: is_surveillance_def astype_str_def lower_def lower_char_def)
  have "filter (\<lambda>l. is_surveillance (\<lambda>x. []) l) (unique_l1 (\<lambda>x. []) example_l1_agg)
      = filter (\<lambda>l. is_surveillance (\<lambda>x. []) l) (l1_first_seen example_l1_agg)"
    using unique_l1_surveillance_first [of "\<lambda>x. []" example_l1_agg] by blast
  then have c: "filter (\<lambda>l. is_surveillance (\<lambda>x. []) l) (unique_l1 (\<lambda>x. []) example_l1_agg) =
     [Str ''SURVEILLANCE of use'', Str ''Surveillance systems'']"
    using l by (rule trans)
  from example_unique_l1 f s c show ?thesis
    by (intro conjI)
qed

lemma l2_examples:
  "l2_num_prefix ''10. Workforce'' = 10" "l2_num_prefix ''2. Training'' = 2"
  "match_num_prefix ''Other'' = None" "l2_num_prefix ''Other'' = 9999"
  by (simp_all add: l2_num_prefix_def match_num_prefix_def is_space_def is_digit_def digits_val_def)

lemma example_l2_order:
  "map agg_l2 (y_group (\<lambda>x. []) example_l2_agg (Str ''Laboratory capacity''))
   = [Str ''2. Training'', Str ''10. Workforce'', Str ''Other'']"
  by (simp add: y_group_def example_l2_agg_def l2_row_def astype_str_def
     l2_num_prefix_def match_num_prefix_def is_space_def is_digit_def digits_val_def)

text \<open>
  C8, as the claim states it, fails in its last part: a label without a numeric prefix
  gets 9999, and a label whose prefix is larger, here 10000, sorts after it.
\<close>

theorem y_group_prefix_order_counterexample:
  "match_num_prefix ''Other'' = None
   \<and> match_num_prefix ''10000. Zoonoses'' = Some ''10000''
   \<and> map agg_l2 (y_group (\<lambda>x. []) sentinel_l2_agg (Str ''Laboratory capacity''))
       = [Str ''Other'', Str ''10000. Zoonoses'']"
  by (simp add: y_group_def sentinel_l2_agg_def l2_row_def astype_str_def
     l2_num_prefix_def match_num_prefix_def is_space_def is_digit_def digits_val_def)

text \<open>
  C8, amended. The rows of a level-1 group are the rows of the aggregate table with
  that level 1, in ascending order of the integer that \<open>l2_num_prefix\<close> gives their
  level-2 label, so \<open>10. Workforce\<close> comes after \<open>2. Training\<close>; a label that the
  pattern does not match gets 9999, and whatever follows such a label in its group has
  9999 or more: the label comes after every label whose prefix is below 9999.
\<close>

theorem y_group_prefix_order:
  "sorted (map (\<lambda>a. l2_num_prefix (astype_str fmt (agg_l2 a))) (y_group fmt ag l1))
   \<and> set (y_group fmt ag l1) = {a \<in> set ag. agg_l1 a = l1}
   \<and> length (y_group fmt ag l1) = length (filter (\<lambda>a. agg_l1 a = l1) ag)
   \<and> l2_num_prefix ''2. Training'' < l2_num_prefix ''10. Workforce''
   \<and> (match_num_prefix s = None \<longrightarrow> l2_num_prefix s = 9999)
   \<and> (\<forall>i j. i < j \<and> j < length (y_group fmt ag l1)
          \<and> match_num_prefix (astype_str fmt (agg_l2 (y_group fmt ag l1 ! i))) = None
        \<longrightarrow> 9999 \<le> l2_num_prefix (astype_str fmt (agg_l2 (y_group fmt ag l1 ! j))))"
proof -
  let ?k = "\<lambda>a. l2_num_prefix (astype_str fmt (agg_l2 a))"
  let ?g = "y_group fmt ag l1"
  have s: "sorted (map ?k ?g)"
    by (simp add: y_group_def)
  have m: "set ?g = {a \<in> set ag. agg_l1 a = l1}"
    by (simp add: y_group_def)
  have l: "length ?g = length (filter (\<lambda>a. agg_l1 a = l1) ag)"
    by (simp add: y_group_def)
  have e: "l2_num_prefix ''2. Training'' < l2_num_prefix ''10. Workforce''"
    by (simp add: l2_num_prefix_def match_num_prefix_def is_space_def is_digit_def digits_val_def)
  have n: "match_num_prefix s = None \<longrightarrow> l2_num_prefix s = 9999" for s
    by (simp add: l2_num_prefix_def)
  have o: "9999 \<le> ?k (?g ! j)"
    if "i < j" "j < length ?g" "match_num_prefix (astype_str fmt (agg_l2 (?g ! i))) = None" for i j
  proof -
    have "map ?k ?g ! i \<le> map ?k ?g ! j"
      using s that(1,2) by (simp add: sorted_iff_nth_mono del: nth_map)
    moreover have "?k (?g ! i) = 9999"
      using that(3) n by simp
    ultimately show ?thesis
      using that(1,2) by simp
  qed
  from s m l e n o show ?thesis by blast
qed

theorem y_group_prefix_order_witness:
  "map agg_l2 (y_group (\<lambda>x. []) example_l2_agg (Str ''Laboratory capacity''))
     = [Str ''2. Training'', Str ''10. Workforce'', Str ''Other'']
   \<and> sorted (map (\<lambda>a. l2_num_prefix (astype_str (\<lambda>x. []) (agg_l2 a)))
        (y_group (\<lambda>x. []) example_l2_agg (Str ''Laboratory capacity'')))
   \<and> l2_num_prefix ''2. Training'' = 2 \<and> l2_num_prefix ''10. Workforce'' = 10
   \<and> match_num_prefix ''Other'' = None \<and> l2_num_prefix ''Other'' = 9999"
  using y_group_prefix_order [of "\<lambda>x. []" example_l2_agg "Str ''Laboratory capacity''" "''Other''"]
    example_l2_order l2_examples
  by simp

subsection \<open>Labels\<close>

text \<open>
  C4. The strength label is a total function of the mean strength: a missing mean gives
  \<open>N/A\<close>, a mean of at least 2.6 gives \<open>high\<close>, from 2.4 up to 2.6 \<open>moderate\<close>, from
  1.5 up to 2.4 \<open>low-moderate\<close>, from 1.0 up to 1.5 \<open>low\<close>, below 1.0 \<open>very low\<close>;
  the boundaries 2.6, 2.4, 1.5 and 1.0 give \<open>high\<close>, \<open>moderate\<close>, \<open>low-moderate\<close>
  and \<open>low\<close>.
\<close>

theorem map_strength_label_thresholds:
  "map_strength_label None = ''N/A''
   \<and> (2.6 \<le> x \<longrightarrow> map_strength_label (Some x) = ''high'')
   \<and> (2.4 \<le> x \<and> x < 2.6 \<longrightarrow> map_strength_label (Some x) = ''moderate'')
   \<and> (1.5 \<le> x \<and> x < 2.4 \<longrightarrow> map_strength_label (Some x) = ''low-moderate'')
   \<and> (1.0 \<le> x \<and> x < 1.5 \<longrightarrow> map_strength_label (Some x) = ''low'')
   \<and> (x < 1.0 \<longrightarrow> map_strength_label (Some x) = ''very low'')
   \<and> map_strength_label (Some 2.6) = ''high''
   \<and> map_strength_label (Some 2.4) = ''moderate''
   \<and> map_strength_label (Some 1.5) = ''low-moderate''
   \<and> map_strength_label (Some 1.0) = ''low''
   \<and> map_strength_label (Some x) \<in>
        {''high'', ''moderate'', ''low-moderate'', ''low'', ''very low''}"
  by (simp add: map_strength_label_def)

theorem map_strength_label_thresholds_witness:
  "map_strength_label (Some 2.8) = ''high''
   \<and> map_strength_label (Some 2.5) = ''moderate''
   \<and> map_strength_label (Some 2) = ''low-moderate''
   \<and> map_strength_label (Some 1.2) = ''low''
   \<and> map_strength_label (Some 0.5) = ''very low''"
  using map_strength_label_thresholds [of "2.8"] map_strength_label_thresholds [of "2.5"]
    map_strength_label_thresholds [of "2"] map_strength_label_thresholds [of "1.2"]
    map_strength_label_thresholds [of "0.5"]
  by simp

text \<open>
  C3. The direction label is a function of the mean direction: a missing mean gives
  \<open>N/A\<close>, exactly 1 gives \<open>positive\<close>, strictly between 0.5 and 1 \<open>mostly positive\<close>,
  above -0.5 and up to 0.5 \<open>inconclusive/mixed\<close>, above -1 and up to -0.5
  \<open>mostly negative\<close>, exactly -1 \<open>negative\<close>; a value outside the interval from -1
  to 1 gets no label: the function falls through and yields \<open>None\<close>.
\<close>

theorem map_direction_label_cases:
  "map_direction_label None = Some ''N/A''
   \<and> (x = 1 \<longrightarrow> map_direction_label (Some x) = Some ''positive'')
   \<and> (0.5 < x \<and> x < 1 \<longrightarrow> map_direction_label (Some x) = Some ''mostly positive'')
   \<and> (-0.5 < x \<and> x \<le> 0.5 \<longrightarrow> map_direction_label (Some x) = Some ''inconclusive/mixed'')
   \<and> (-1 < x \<and> x \<le> -0.5 \<longrightarrow> map_direction_label (Some x) = Some ''mostly negative'')
   \<and> (x = -1 \<longrightarrow> map_direction_label (Some x) = Some ''negative'')
   \<and> (x < -1 \<or> 1 < x \<longrightarrow> map_direction_label (Some x) = None)"
  by (simp add: map_direction_label_def)

theorem map_direction_label_cases_witness:
  "map_direction_label (Some 1) = Some ''positive''
   \<and> map_direction_label (Some 0.75) = Some ''mostly positive''
   \<and> map_direction_label (Some 0.5) = Some ''inconclusive/mixed''
   \<and> map_direction_label (Some (-0.5)) = Some ''mostly negative''
   \<and> map_direction_label (Some (-1)) = Some ''negative''
   \<and> map_direction_label (Some 1.5) = None
   \<and> map_direction_label (Some (-2)) = None"
  using map_direction_label_cases [of "1"] map_direction_label_cases [of "0.75"]
    map_direction_label_cases [of "0.5"] map_direction_label_cases [of "-0.5"]
    map_direction_label_cases [of "-1"] map_direction_label_cases [of "1.5"]
    map_direction_label_cases [of "-2"]
  by simp

end
